theory Spec2Isabelle
  imports Complex_Main
begin

section \<open>The cart slice of \<^verbatim>\<open>src/app/cartSlice.ts\<close>\<close>

text \<open>
  The slice owns one object, \<^verbatim>\<open>state.items\<close>, keyed by product id, and three case
  reducers that mutate it. The embedding keeps the shape of the source:

  \<^item> the interfaces \<^verbatim>\<open>CartItem\<close> and \<^verbatim>\<open>CartState\<close> are records with the same fields
    (\<^verbatim>\<open>id\<close> and \<^verbatim>\<open>image\<close> carry the suffix \<open>_field\<close>, since HOL has constants of both
    names). The spread \<^verbatim>\<open>{ ...item, quantity: 1 }\<close> copies the five declared fields;
  \<^item> \<^verbatim>\<open>quantity\<close> has the source type \<^verbatim>\<open>number\<close>, an IEEE 754 double. The slice only
    ever stores 1 in it and applies \<^verbatim>\<open>+= 1\<close> and \<^verbatim>\<open>-= 1\<close>, so the values it holds are
    integers; the field is an \<open>int\<close> that stands for the double of that value, and the
    two compound assignments round their exact result to the nearest double, ties to
    even, as JavaScript does (\<open>number_add\<close>, \<open>number_sub\<close>). Up to \<open>2 ^ 53\<close> in
    magnitude every integer is a double and the arithmetic is exact; above, it is not;
  \<^item> \<^verbatim>\<open>price\<close> is only ever copied, never computed on;
  \<^item> the object \<^verbatim>\<open>{ [key: number]: CartItem }\<close> is a map from keys to entries;
    \<^verbatim>\<open>state.items[k]\<close> is \<^verbatim>\<open>undefined\<close> exactly where the map is \<open>None\<close>, and an entry,
    being an object, is always truthy;
  \<^item> the in-place mutation of the draft state is explicit state passing;
  \<^item> reading or writing \<^verbatim>\<open>.quantity\<close> on \<^verbatim>\<open>undefined\<close> throws a \<^verbatim>\<open>TypeError\<close> in
    JavaScript. This is the one way the three reducers could fail, so it is a branch
    of the model: every reducer returns \<open>error + CartState\<close>.
\<close>

subsection \<open>Data model\<close>

record CartItem =
  id_field :: int
  title :: string
  image_field :: string
  price :: real
  quantity :: int

record CartState =
  items :: "int \<rightharpoonup> CartItem"

datatype error = TypeError

definition initialState :: CartState where
  "initialState = \<lparr>items = Map.empty\<rparr>"

subsection \<open>Arithmetic of \<^verbatim>\<open>number\<close> on integer values\<close>

text \<open>
  The distance between neighbouring doubles at magnitude \<open>n\<close>: 1 below \<open>2 ^ 53\<close>, and
  doubling with every further binary digit (a double has 53 significant bits).
\<close>

fun spacing :: "nat \<Rightarrow> nat" where
  "spacing n = (if n < 2 ^ 53 then 1 else 2 * spacing (n div 2))"

declare spacing.simps [simp del]

text \<open>
  Rounding an integer to the nearest double, ties to the neighbour with the even
  significand: the rounding of every JavaScript arithmetic operation. The neighbours of
  \<open>x\<close> are the multiples \<open>k * u\<close> and \<open>(k + 1) * u\<close> of the spacing \<open>u\<close> at its magnitude.
  (Results beyond the largest finite double, near \<open>2 ^ 1024\<close>, would be infinite; a
  double plus or minus 1 never is.)
\<close>

definition round_double :: "int \<Rightarrow> int" where
  "round_double x =
     (let u = int (spacing (nat \<bar>x\<bar>)); k = x div u; r = x mod u
      in if 2 * r < u then k * u
         else if u < 2 * r then (k + 1) * u
         else if even k then k * u else (k + 1) * u)"

text \<open>\<^verbatim>\<open>x + y\<close> and \<^verbatim>\<open>x - y\<close> on two integer-valued doubles.\<close>

definition number_add :: "int \<Rightarrow> int \<Rightarrow> int" where
  "number_add x y = round_double (x + y)"

definition number_sub :: "int \<Rightarrow> int \<Rightarrow> int" where
  "number_sub x y = round_double (x - y)"

subsection \<open>The property accesses of the reducers\<close>

text \<open>
  \<^verbatim>\<open>state.items[k].quantity = f(state.items[k].quantity)\<close>, the shape of the compound
  assignments \<^verbatim>\<open>+= 1\<close> and \<^verbatim>\<open>-= 1\<close> of the source (the reducers pass the rounded
  operation for \<open>f\<close>): a \<^verbatim>\<open>TypeError\<close> when \<^verbatim>\<open>state.items[k]\<close> is \<^verbatim>\<open>undefined\<close>.
\<close>

definition quantity_assign :: "(int \<Rightarrow> int) \<Rightarrow> CartState \<Rightarrow> int \<Rightarrow> error + CartState" where
  "quantity_assign f state k =
     (case items state k of
        None \<Rightarrow> Inl TypeError
      | Some entry \<Rightarrow>
          Inr (state\<lparr>items := (items state)(k \<mapsto> entry\<lparr>quantity := f (quantity entry)\<rparr>)\<rparr>))"

text \<open>The read \<^verbatim>\<open>state.items[k].quantity\<close>.\<close>

definition quantity_read :: "CartState \<Rightarrow> int \<Rightarrow> error + int" where
  "quantity_read state k =
     (case items state k of
        None \<Rightarrow> Inl TypeError
      | Some entry \<Rightarrow> Inr (quantity entry))"

text \<open>\<^verbatim>\<open>delete state.items[k]\<close>: never throws, also when the key is absent.\<close>

definition delete_item :: "CartState \<Rightarrow> int \<Rightarrow> CartState" where
  "delete_item state k = state\<lparr>items := (items state)(k := None)\<rparr>"

subsection \<open>The case reducers\<close>

text \<open>
  \<^verbatim>\<open>addToCart(state, action)\<close> with \<^verbatim>\<open>item = action.payload\<close>. The else branch stores
  the object \<^verbatim>\<open>{ ...item, quantity: 1 }\<close>.
\<close>

definition addToCart :: "CartState \<Rightarrow> CartItem \<Rightarrow> error + CartState" where
  "addToCart state item =
     (if items state (id_field item) \<noteq> None
      then quantity_assign (\<lambda>q. number_add q 1) state (id_field item)
      else Inr (state\<lparr>items := (items state)(id_field item \<mapsto> item\<lparr>quantity := 1\<rparr>)\<rparr>))"

text \<open>\<^verbatim>\<open>incrementQuantity(state, action)\<close> with \<^verbatim>\<open>id = action.payload\<close>.\<close>

definition incrementQuantity :: "CartState \<Rightarrow> int \<Rightarrow> error + CartState" where
  "incrementQuantity state k =
     (if items state k \<noteq> None
      then quantity_assign (\<lambda>q. number_add q 1) state k
      else Inr state)"

text \<open>
  \<^verbatim>\<open>decrementQuantity(state, action)\<close> with \<^verbatim>\<open>id = action.payload\<close>: the decrement, then
  the second read of \<^verbatim>\<open>state.items[id].quantity\<close> for the test \<^verbatim>\<open><= 0\<close>, then the delete.
\<close>

definition decrementQuantity :: "CartState \<Rightarrow> int \<Rightarrow> error + CartState" where
  "decrementQuantity state k =
     (if items state k \<noteq> None
      then (case quantity_assign (\<lambda>q. number_sub q 1) state k of
              Inl e \<Rightarrow> Inl e
            | Inr state1 \<Rightarrow>
                (case quantity_read state1 k of
                   Inl e \<Rightarrow> Inl e
                 | Inr q \<Rightarrow> if q \<le> 0 then Inr (delete_item state1 k) else Inr state1))
      else Inr state)"

subsection \<open>The slice reducer and sequences of actions\<close>

text \<open>
  \<^verbatim>\<open>cartSlice.actions\<close> has one action creator per case reducer, and \<^verbatim>\<open>cartSlice.reducer\<close>
  runs the case reducer of the action it is given.
\<close>

datatype action =
    AddToCart CartItem
  | IncrementQuantity int
  | DecrementQuantity int

fun reducer :: "CartState \<Rightarrow> action \<Rightarrow> error + CartState" where
  "reducer state (AddToCart item) = addToCart state item"
| "reducer state (IncrementQuantity k) = incrementQuantity state k"
| "reducer state (DecrementQuantity k) = decrementQuantity state k"

text \<open>
  Dispatching a list of actions in order; a thrown error ends the run. The store is
  created with \<open>initialState\<close> and changes only through dispatched actions, so the
  states a cart can be in are the results of \<open>run initialState\<close>.
\<close>

fun run :: "CartState \<Rightarrow> action list \<Rightarrow> error + CartState" where
  "run state [] = Inr state"
| "run state (a # as) =
     (case reducer state a of
        Inl e \<Rightarrow> Inl e
      | Inr state' \<Rightarrow> run state' as)"

subsection \<open>The quantity invariant\<close>

text \<open>
  Every entry of \<open>items\<close> has a quantity between 1 and \<open>2 ^ 53\<close>, the range in which
  every integer is a double.
\<close>

definition quantities_in_range :: "CartState \<Rightarrow> bool" where
  "quantities_in_range state =
     (\<forall>k e. items state k = Some e \<longrightarrow> 1 \<le> quantity e \<and> quantity e \<le> 2 ^ 53)"

section \<open>Where the arithmetic is exact\<close>

lemma spacing_small: "n < 2 ^ 53 \<Longrightarrow> spacing n = 1"
  by (subst spacing.simps) simp

lemma round_double_small: "\<bar>x\<bar> < 2 ^ 53 \<Longrightarrow> round_double x = x"
  by (simp add: round_double_def spacing_small)

lemma round_double_exact:
  assumes "\<bar>x\<bar> \<le> 2 ^ 53"
  shows "round_double x = x"
proof -
  consider "\<bar>x\<bar> < 2 ^ 53" | "x = 2 ^ 53" | "x = - (2 ^ 53)"
    using assms by linarith
  then show ?thesis
  proof cases
    case 1
    then show ?thesis by (rule round_double_small)
  next
    case 2
    then show ?thesis by (simp add: round_double_def spacing.simps)
  next
    case 3
    then show ?thesis by (simp add: round_double_def spacing.simps)
  qed
qed

lemma number_add_exact: "- (2 ^ 53) \<le> q \<Longrightarrow> q < 2 ^ 53 \<Longrightarrow> number_add q 1 = q + 1"
  by (simp add: number_add_def round_double_exact)

lemma number_sub_exact: "- (2 ^ 53) < q \<Longrightarrow> q \<le> 2 ^ 53 \<Longrightarrow> number_sub q 1 = q - 1"
  by (simp add: number_sub_def round_double_exact)

text \<open>
  At \<open>2 ^ 53\<close> the next integer is not a double: the sum is a tie between \<open>2 ^ 53\<close> and
  \<open>2 ^ 53 + 2\<close> and rounds back to \<open>2 ^ 53\<close>, so the increment leaves the value as it is.
\<close>

lemma number_add_saturates: "number_add (2 ^ 53) 1 = 2 ^ 53"
  by (simp add: number_add_def round_double_def spacing.simps)

lemma number_add_in_range:
  assumes "1 \<le> q" and "q \<le> 2 ^ 53"
  shows "1 \<le> number_add q 1 \<and> number_add q 1 \<le> 2 ^ 53"
proof (cases "q = 2 ^ 53")
  case True
  then show ?thesis using number_add_saturates by simp
next
  case False
  with assms have "number_add q 1 = q + 1"
    by (simp add: number_add_exact)
  with assms False show ?thesis by simp
qed

section \<open>Closed forms of the three reducers\<close>

text \<open>The spread \<^verbatim>\<open>{ ...item, quantity: q }\<close>, and an entry after an assignment to its
  \<^verbatim>\<open>quantity\<close>, field by field.\<close>

lemma quantity_update_fields:
  "e\<lparr>quantity := q\<rparr> =
     \<lparr>id_field = id_field e, title = title e, image_field = image_field e,
      price = price e, quantity = q\<rparr>"
  by (cases e) simp

text \<open>
  Each reducer returns a state, never the error, and the state is the one below. The
  claims are read off these equations.
\<close>

lemma addToCart_eq:
  "addToCart s item =
     Inr (case items s (id_field item) of
            None \<Rightarrow> s\<lparr>items := (items s)(id_field item \<mapsto> item\<lparr>quantity := 1\<rparr>)\<rparr>
          | Some e \<Rightarrow>
              s\<lparr>items := (items s)(id_field item \<mapsto> e\<lparr>quantity := number_add (quantity e) 1\<rparr>)\<rparr>)"
  by (simp add: addToCart_def quantity_assign_def split: option.split)

lemma incrementQuantity_eq:
  "incrementQuantity s k =
     Inr (case items s k of
            None \<Rightarrow> s
          | Some e \<Rightarrow> s\<lparr>items := (items s)(k \<mapsto> e\<lparr>quantity := number_add (quantity e) 1\<rparr>)\<rparr>)"
  by (simp add: incrementQuantity_def quantity_assign_def split: option.split)

lemma decrementQuantity_eq:
  "decrementQuantity s k =
     Inr (case items s k of
            None \<Rightarrow> s
          | Some e \<Rightarrow>
              if number_sub (quantity e) 1 \<le> 0
              then s\<lparr>items := (items s)(k := None)\<rparr>
              else s\<lparr>items := (items s)(k \<mapsto> e\<lparr>quantity := number_sub (quantity e) 1\<rparr>)\<rparr>)"
  by (simp add: decrementQuantity_def quantity_assign_def quantity_read_def delete_item_def
      split: option.split)

section \<open>Totality\<close>

text \<open>
  Claim C8. Each of \<open>addToCart\<close>, \<open>incrementQuantity\<close> and \<open>decrementQuantity\<close> returns a
  result state for every state and every input, whatever the fields of the payload
  (a negative price included): the \<^verbatim>\<open>TypeError\<close> branch of the property accesses is
  never taken, because every access is guarded by the presence test.
\<close>

theorem reducers_total:
  "(\<exists>s'. addToCart s item = Inr s') \<and>
   (\<exists>s'. incrementQuantity s k = Inr s') \<and>
   (\<exists>s'. decrementQuantity s k = Inr s')"
  by (simp add: addToCart_eq incrementQuantity_eq decrementQuantity_eq)

section \<open>The states a cart can be in\<close>

text \<open>
  The invariant is kept by every action, so by every run. An increment of a quantity
  below \<open>2 ^ 53\<close> is exact and stays in the range, the increment of \<open>2 ^ 53\<close> returns
  \<open>2 ^ 53\<close>; a decrement in the range is exact, and its result is either at least 1 or
  the entry is gone.
\<close>

lemma reducer_total: "\<exists>s'. reducer s a = Inr s'"
  by (cases a) (simp_all add: addToCart_eq incrementQuantity_eq decrementQuantity_eq)

lemma quantities_in_rangeD:
  "quantities_in_range s \<Longrightarrow> items s k = Some e \<Longrightarrow> 1 \<le> quantity e \<and> quantity e \<le> 2 ^ 53"
  by (simp add: quantities_in_range_def)

lemma quantities_in_range_update:
  assumes "quantities_in_range s" and "1 \<le> quantity e" and "quantity e \<le> 2 ^ 53"
  shows "quantities_in_range (s\<lparr>items := (items s)(k \<mapsto> e)\<rparr>)"
  using assms by (simp add: quantities_in_range_def)

lemma quantities_in_range_delete:
  assumes "quantities_in_range s"
  shows "quantities_in_range (s\<lparr>items := (items s)(k := None)\<rparr>)"
  using assms by (simp add: quantities_in_range_def)

lemma addToCart_preserves:
  assumes inv: "quantities_in_range s" and r: "addToCart s item = Inr s'"
  shows "quantities_in_range s'"
proof (cases "items s (id_field item)")
  case None
  with r have "s' = s\<lparr>items := (items s)(id_field item \<mapsto> item\<lparr>quantity := 1\<rparr>)\<rparr>"
    by (simp add: addToCart_eq)
  with inv show ?thesis
    by (simp add: quantities_in_range_update)
next
  case (Some e)
  with r have s': "s' =
      s\<lparr>items := (items s)(id_field item \<mapsto> e\<lparr>quantity := number_add (quantity e) 1\<rparr>)\<rparr>"
    by (simp add: addToCart_eq)
  from inv Some have "1 \<le> quantity e \<and> quantity e \<le> 2 ^ 53"
    by (rule quantities_in_rangeD)
  then have "1 \<le> number_add (quantity e) 1 \<and> number_add (quantity e) 1 \<le> 2 ^ 53"
    using number_add_in_range [of "quantity e"] by blast
  with inv s' show ?thesis
    by (simp add: quantities_in_range_update)
qed

lemma incrementQuantity_preserves:
  assumes inv: "quantities_in_range s" and r: "incrementQuantity s k = Inr s'"
  shows "quantities_in_range s'"
proof (cases "items s k")
  case None
  with inv r show ?thesis
    by (simp add: incrementQuantity_eq)
next
  case (Some e)
  with r have s': "s' =
      s\<lparr>items := (items s)(k \<mapsto> e\<lparr>quantity := number_add (quantity e) 1\<rparr>)\<rparr>"
    by (simp add: incrementQuantity_eq)
  from inv Some have "1 \<le> quantity e \<and> quantity e \<le> 2 ^ 53"
    by (rule quantities_in_rangeD)
  then have "1 \<le> number_add (quantity e) 1 \<and> number_add (quantity e) 1 \<le> 2 ^ 53"
    using number_add_in_range [of "quantity e"] by blast
  with inv s' show ?thesis
    by (simp add: quantities_in_range_update)
qed

lemma decrementQuantity_preserves:
  assumes inv: "quantities_in_range s" and r: "decrementQuantity s k = Inr s'"
  shows "quantities_in_range s'"
proof (cases "items s k")
  case None
  with inv r show ?thesis
    by (simp add: decrementQuantity_eq)
next
  case (Some e)
  from inv Some have range: "1 \<le> quantity e \<and> quantity e \<le> 2 ^ 53"
    by (rule quantities_in_rangeD)
  then have exact: "number_sub (quantity e) 1 = quantity e - 1"
    by (simp add: number_sub_exact)
  show ?thesis
  proof (cases "quantity e - 1 \<le> 0")
    case True
    with r Some exact have "s' = s\<lparr>items := (items s)(k := None)\<rparr>"
      by (simp add: decrementQuantity_eq)
    with inv show ?thesis
      by (simp add: quantities_in_range_delete)
  next
    case False
    with r Some exact have "s' = s\<lparr>items := (items s)(k \<mapsto> e\<lparr>quantity := quantity e - 1\<rparr>)\<rparr>"
      by (simp add: decrementQuantity_eq)
    with inv range False show ?thesis
      by (simp add: quantities_in_range_update)
  qed
qed

lemma reducer_preserves:
  "quantities_in_range s \<Longrightarrow> reducer s a = Inr s' \<Longrightarrow> quantities_in_range s'"
  by (cases a)
    (auto intro: addToCart_preserves incrementQuantity_preserves decrementQuantity_preserves)

lemma run_preserves:
  "quantities_in_range s \<Longrightarrow> \<exists>s'. run s acts = Inr s' \<and> quantities_in_range s'"
proof (induction acts arbitrary: s)
  case Nil
  then show ?case by simp
next
  case (Cons a acts)
  obtain s1 where step: "reducer s a = Inr s1"
    using reducer_total by blast
  with Cons.prems have "quantities_in_range s1"
    by (rule reducer_preserves)
  then obtain s' where "run s1 acts = Inr s'" and "quantities_in_range s'"
    using Cons.IH by blast
  with step show ?case by simp
qed

lemma initialState_in_range: "quantities_in_range initialState"
  by (simp add: quantities_in_range_def initialState_def)


text \<open>
  Claim C1. Every finite sequence of \<open>addToCart\<close>, \<open>incrementQuantity\<close> and
  \<open>decrementQuantity\<close> actions, run from the initial empty cart, returns a state, and
  every entry of \<open>items\<close> in that state has a quantity of at least 1: no reachable state
  holds an entry of quantity zero or below.
\<close>

theorem reachable_quantities_positive:
  "\<exists>s. run initialState acts = Inr s \<and> (\<forall>k e. items s k = Some e \<longrightarrow> 1 \<le> quantity e)"
  using run_preserves [OF initialState_in_range, of acts]
  by (auto simp add: quantities_in_range_def)

theorem reachable_quantities_positive_witness:
  "\<exists>s e. run initialState
       [AddToCart \<lparr>id_field = 1, title = ''Shirt'', image_field = ''u'', price = 20, quantity = 1\<rparr>,
        IncrementQuantity 1,
        DecrementQuantity 1] = Inr s \<and>
     items s 1 = Some e \<and> 1 \<le> quantity e"
proof -
  let ?acts =
    "[AddToCart \<lparr>id_field = 1, title = ''Shirt'', image_field = ''u'', price = 20, quantity = 1\<rparr>,
      IncrementQuantity 1,
      DecrementQuantity 1]"
  obtain s where r: "run initialState ?acts = Inr s"
    and pos: "\<forall>k e. items s k = Some e \<longrightarrow> 1 \<le> quantity e"
    using reachable_quantities_positive [of ?acts] by blast
  have "run initialState ?acts =
      Inr \<lparr>items = [1 \<mapsto>
        \<lparr>id_field = 1, title = ''Shirt'', image_field = ''u'', price = 20, quantity = 1\<rparr>]\<rparr>"
    by (simp add: initialState_def addToCart_eq incrementQuantity_eq decrementQuantity_eq
        number_add_exact number_sub_exact)
  with r have present: "items s 1 =
      Some \<lparr>id_field = 1, title = ''Shirt'', image_field = ''u'', price = 20, quantity = 1\<rparr>"
    by auto
  with pos have "1 \<le> quantity
      \<lparr>id_field = 1, title = ''Shirt'', image_field = ''u'', price = 20, quantity = 1\<rparr>"
    by blast
  with r present show ?thesis by blast
qed

text \<open>
  Adding the same item again and again counts up exactly as long as the count stays
  within \<open>2 ^ 53\<close>; in particular a cart can reach an entry of quantity \<open>2 ^ 53\<close>.
\<close>

lemma add_repeat_present:
  "items s (id_field item) = Some e \<Longrightarrow> 1 \<le> quantity e \<Longrightarrow>
   quantity e + int m \<le> 2 ^ 53 \<Longrightarrow>
   \<exists>s'. run s (replicate m (AddToCart item)) = Inr s' \<and>
        items s' (id_field item) = Some (e\<lparr>quantity := quantity e + int m\<rparr>)"
proof (induction m arbitrary: s e)
  case 0
  then show ?case by simp
next
  case (Suc m)
  let ?e1 = "e\<lparr>quantity := quantity e + 1\<rparr>"
  let ?s1 = "s\<lparr>items := (items s)(id_field item \<mapsto> ?e1)\<rparr>"
  from Suc.prems have "number_add (quantity e) 1 = quantity e + 1"
    by (simp add: number_add_exact)
  with Suc.prems have step: "addToCart s item = Inr ?s1"
    by (simp add: addToCart_eq)
  from Suc.prems have "items ?s1 (id_field item) = Some ?e1" and "1 \<le> quantity ?e1"
    and "quantity ?e1 + int m \<le> 2 ^ 53"
    by simp_all
  then have "\<exists>s'. run ?s1 (replicate m (AddToCart item)) = Inr s' \<and>
      items s' (id_field item) = Some (?e1\<lparr>quantity := quantity ?e1 + int m\<rparr>)"
    by (rule Suc.IH)
  with step show ?case
    by (simp add: ac_simps)
qed

lemma add_repeat:
  assumes "0 < n" and "int n \<le> 2 ^ 53"
  shows "\<exists>s. run initialState (replicate n (AddToCart item)) = Inr s \<and>
           items s (id_field item) = Some (item\<lparr>quantity := int n\<rparr>)"
proof -
  from assms(1) obtain m where n: "n = Suc m"
    by (cases n) simp_all
  let ?e1 = "item\<lparr>quantity := 1\<rparr>"
  let ?s1 = "initialState\<lparr>items := (items initialState)(id_field item \<mapsto> ?e1)\<rparr>"
  have step: "addToCart initialState item = Inr ?s1"
    by (simp add: addToCart_eq initialState_def)
  have "items ?s1 (id_field item) = Some ?e1" and "1 \<le> quantity ?e1"
    by simp_all
  moreover from assms(2) n have "quantity ?e1 + int m \<le> 2 ^ 53"
    by simp
  ultimately have "\<exists>s'. run ?s1 (replicate m (AddToCart item)) = Inr s' \<and>
      items s' (id_field item) = Some (?e1\<lparr>quantity := quantity ?e1 + int m\<rparr>)"
    by (rule add_repeat_present)
  with step n show ?thesis
    by simp
qed

lemma reachable_2_53:
  "\<exists>s. run initialState (replicate (2 ^ 53) (AddToCart item)) = Inr s \<and>
       items s (id_field item) = Some (item\<lparr>quantity := 2 ^ 53\<rparr>)"
  using add_repeat [of "2 ^ 53" item] by simp

section \<open>The contract of \<open>addToCart\<close>\<close>

text \<open>
  Claim C2. When the id of the supplied item is not a key of \<open>items\<close>, \<open>addToCart\<close>
  stores one entry under that id: its \<open>title\<close>, \<open>image\<close> and \<open>price\<close> are the supplied
  ones and its \<open>quantity\<close> is 1, whatever quantity the payload carried. The keys of the
  result are the old keys and that id, and the entries of the old keys are untouched.
\<close>

theorem addToCart_absent:
  assumes "items s (id_field item) = None"
  shows "addToCart s item =
           Inr (s\<lparr>items := (items s)(id_field item \<mapsto>
                  \<lparr>id_field = id_field item, title = title item,
                   image_field = image_field item, price = price item, quantity = 1\<rparr>)\<rparr>) \<and>
         (\<exists>s'. addToCart s item = Inr s' \<and>
           dom (items s') = insert (id_field item) (dom (items s)) \<and>
           id_field item \<notin> dom (items s) \<and>
           (\<forall>k \<in> dom (items s). items s' k = items s k)) \<and>
         addToCart s (item\<lparr>quantity := n\<rparr>) = addToCart s item"
  using assms by (auto simp add: addToCart_eq quantity_update_fields)

theorem addToCart_absent_witness:
  "items \<lparr>items = [2 \<mapsto>
      \<lparr>id_field = 2, title = ''Coat'', image_field = ''v'', price = 90, quantity = 4\<rparr>]\<rparr> 1 = None \<and>
   addToCart
     \<lparr>items = [2 \<mapsto>
        \<lparr>id_field = 2, title = ''Coat'', image_field = ''v'', price = 90, quantity = 4\<rparr>]\<rparr>
     \<lparr>id_field = 1, title = ''Shirt'', image_field = ''u'', price = 1999 / 100, quantity = 5\<rparr> =
   Inr \<lparr>items = [2 \<mapsto>
      \<lparr>id_field = 2, title = ''Coat'', image_field = ''v'', price = 90, quantity = 4\<rparr>,
                   1 \<mapsto>
      \<lparr>id_field = 1, title = ''Shirt'', image_field = ''u'', price = 1999 / 100, quantity = 1\<rparr>]\<rparr>"
  using addToCart_absent [of
      "\<lparr>items = [2 \<mapsto>
         \<lparr>id_field = 2, title = ''Coat'', image_field = ''v'', price = 90, quantity = 4\<rparr>]\<rparr>"
      "\<lparr>id_field = 1, title = ''Shirt'', image_field = ''u'', price = 1999 / 100, quantity = 5\<rparr>"]
  by simp

text \<open>
  Claim C3, as the code has it. When \<open>items\<close> already has an entry \<open>e\<close> under the id of
  the supplied item, and the quantity of \<open>e\<close> is below \<open>2 ^ 53\<close> in magnitude,
  \<open>addToCart\<close> raises the quantity of that entry by 1 and keeps the \<open>title\<close>, \<open>image\<close>
  and \<open>price\<close> of \<open>e\<close>, the values of the first insertion, whatever the payload carries
  in these fields.
\<close>

theorem addToCart_present:
  assumes "items s (id_field item) = Some e" and "\<bar>quantity e\<bar> < 2 ^ 53"
  shows "addToCart s item =
           Inr (s\<lparr>items := (items s)(id_field item \<mapsto>
                  \<lparr>id_field = id_field e, title = title e,
                   image_field = image_field e, price = price e,
                   quantity = quantity e + 1\<rparr>)\<rparr>)"
proof -
  from assms(2) have "number_add (quantity e) 1 = quantity e + 1"
    by (simp add: number_add_exact)
  with assms(1) show ?thesis
    by (simp add: addToCart_eq quantity_update_fields)
qed

theorem addToCart_present_witness:
  "items \<lparr>items = [1 \<mapsto>
      \<lparr>id_field = 1, title = ''Shirt'', image_field = ''u'', price = 20, quantity = 3\<rparr>]\<rparr> 1 =
     Some \<lparr>id_field = 1, title = ''Shirt'', image_field = ''u'', price = 20, quantity = 3\<rparr> \<and>
   \<bar>quantity \<lparr>id_field = 1, title = ''Shirt'', image_field = ''u'', price = 20, quantity = 3\<rparr>\<bar> < 2 ^ 53 \<and>
   addToCart
     \<lparr>items = [1 \<mapsto>
        \<lparr>id_field = 1, title = ''Shirt'', image_field = ''u'', price = 20, quantity = 3\<rparr>]\<rparr>
     \<lparr>id_field = 1, title = ''Coat'', image_field = ''v'', price = - 5, quantity = 9\<rparr> =
   Inr \<lparr>items = [1 \<mapsto>
     \<lparr>id_field = 1, title = ''Shirt'', image_field = ''u'', price = 20, quantity = 4\<rparr>]\<rparr>"
  using addToCart_present [of
      "\<lparr>items = [1 \<mapsto>
         \<lparr>id_field = 1, title = ''Shirt'', image_field = ''u'', price = 20, quantity = 3\<rparr>]\<rparr>"
      "\<lparr>id_field = 1, title = ''Coat'', image_field = ''v'', price = - 5, quantity = 9\<rparr>"
      "\<lparr>id_field = 1, title = ''Shirt'', image_field = ''u'', price = 20, quantity = 3\<rparr>"]
  by simp

text \<open>
  The claim as the specification words it has no bound. After \<open>2 ^ 53\<close> additions of
  the same item the entry has quantity \<open>2 ^ 53\<close>, and one more \<open>addToCart\<close> leaves it
  at \<open>2 ^ 53\<close>: the \<^verbatim>\<open>number\<close> \<open>2 ^ 53 + 1\<close> does not exist.
\<close>

theorem addToCart_present_counterexample:
  "\<not> (\<forall>acts s item e.
        run initialState acts = Inr s \<and> items s (id_field item) = Some e \<longrightarrow>
        (\<exists>s' e'. addToCart s item = Inr s' \<and> items s' (id_field item) = Some e' \<and>
                 quantity e' = quantity e + 1))"
proof
  let ?item = "\<lparr>id_field = 1, title = ''Shirt'', image_field = ''u'', price = 20, quantity = 1\<rparr>"
  assume all: "\<forall>acts s item e.
        run initialState acts = Inr s \<and> items s (id_field item) = Some e \<longrightarrow>
        (\<exists>s' e'. addToCart s item = Inr s' \<and> items s' (id_field item) = Some e' \<and>
                 quantity e' = quantity e + 1)"
  obtain s where r: "run initialState (replicate (2 ^ 53) (AddToCart ?item)) = Inr s"
    and present: "items s (id_field ?item) = Some (?item\<lparr>quantity := 2 ^ 53\<rparr>)"
    using reachable_2_53 [of ?item] by blast
  from all r present obtain s' e' where "addToCart s ?item = Inr s'"
    and "items s' (id_field ?item) = Some e'"
    and "quantity e' = quantity (?item\<lparr>quantity := 2 ^ 53\<rparr>) + 1"
    by blast
  with present show False
    using number_add_saturates by (auto simp add: addToCart_eq)
qed

section \<open>The contracts of \<open>incrementQuantity\<close> and \<open>decrementQuantity\<close>\<close>

text \<open>
  Claim C4, as the code has it. When \<open>items\<close> has an entry \<open>e\<close> under \<open>k\<close> whose quantity
  is below \<open>2 ^ 53\<close> in magnitude, \<open>incrementQuantity\<close> raises its quantity by 1 and
  leaves its \<open>title\<close>, \<open>image\<close> and \<open>price\<close> as they are; when \<open>items\<close> has no entry under
  \<open>k\<close>, the state is returned as it is and no entry is created.
\<close>

theorem incrementQuantity_contract:
  "(items s k = Some e \<and> \<bar>quantity e\<bar> < 2 ^ 53 \<longrightarrow>
      incrementQuantity s k =
        Inr (s\<lparr>items := (items s)(k \<mapsto>
               \<lparr>id_field = id_field e, title = title e, image_field = image_field e,
                price = price e, quantity = quantity e + 1\<rparr>)\<rparr>)) \<and>
   (items s k = None \<longrightarrow> incrementQuantity s k = Inr s)"
proof -
  have "number_add (quantity e) 1 = quantity e + 1" if "\<bar>quantity e\<bar> < 2 ^ 53"
    using that by (simp add: number_add_exact)
  then show ?thesis
    by (auto simp add: incrementQuantity_eq quantity_update_fields)
qed

theorem incrementQuantity_contract_witness:
  "items \<lparr>items = [1 \<mapsto>
      \<lparr>id_field = 1, title = ''Shirt'', image_field = ''u'', price = 20, quantity = 3\<rparr>]\<rparr> 1 =
     Some \<lparr>id_field = 1, title = ''Shirt'', image_field = ''u'', price = 20, quantity = 3\<rparr> \<and>
   \<bar>quantity \<lparr>id_field = 1, title = ''Shirt'', image_field = ''u'', price = 20, quantity = 3\<rparr>\<bar> < 2 ^ 53 \<and>
   incrementQuantity
     \<lparr>items = [1 \<mapsto>
        \<lparr>id_field = 1, title = ''Shirt'', image_field = ''u'', price = 20, quantity = 3\<rparr>]\<rparr> 1 =
     Inr \<lparr>items = [1 \<mapsto>
        \<lparr>id_field = 1, title = ''Shirt'', image_field = ''u'', price = 20, quantity = 4\<rparr>]\<rparr> \<and>
   items initialState 1 = None \<and>
   incrementQuantity initialState 1 = Inr initialState"
  using incrementQuantity_contract [of
      "\<lparr>items = [1 \<mapsto>
         \<lparr>id_field = 1, title = ''Shirt'', image_field = ''u'', price = 20, quantity = 3\<rparr>]\<rparr>"
      1
      "\<lparr>id_field = 1, title = ''Shirt'', image_field = ''u'', price = 20, quantity = 3\<rparr>"]
    incrementQuantity_contract [of initialState 1]
  by (simp add: initialState_def)

text \<open>
  The claim as the specification words it has no bound. On the cart that \<open>2 ^ 53\<close>
  additions of one item produce, \<open>incrementQuantity\<close> leaves the quantity at \<open>2 ^ 53\<close>.
\<close>

theorem incrementQuantity_counterexample:
  "\<not> (\<forall>acts s k e.
        run initialState acts = Inr s \<and> items s k = Some e \<longrightarrow>
        (\<exists>s' e'. incrementQuantity s k = Inr s' \<and> items s' k = Some e' \<and>
                 quantity e' = quantity e + 1))"
proof
  let ?item = "\<lparr>id_field = 1, title = ''Shirt'', image_field = ''u'', price = 20, quantity = 1\<rparr>"
  assume all: "\<forall>acts s k e.
        run initialState acts = Inr s \<and> items s k = Some e \<longrightarrow>
        (\<exists>s' e'. incrementQuantity s k = Inr s' \<and> items s' k = Some e' \<and>
                 quantity e' = quantity e + 1)"
  obtain s where r: "run initialState (replicate (2 ^ 53) (AddToCart ?item)) = Inr s"
    and present: "items s (id_field ?item) = Some (?item\<lparr>quantity := 2 ^ 53\<rparr>)"
    using reachable_2_53 [of ?item] by blast
  from all r present obtain s' e' where "incrementQuantity s (id_field ?item) = Inr s'"
    and "items s' (id_field ?item) = Some e'"
    and "quantity e' = quantity (?item\<lparr>quantity := 2 ^ 53\<rparr>) + 1"
    by blast
  with present show False
    using number_add_saturates by (auto simp add: incrementQuantity_eq)
qed






section \<open>Frame and equivalence\<close>

text \<open>
  Claim C9. Each of the three operations leaves every key other than the operated one
  as it was: for \<open>k\<close> different from the id of the payload (for \<open>addToCart\<close>) or from the
  id given (for \<open>incrementQuantity\<close> and \<open>decrementQuantity\<close>), \<open>items\<close> has the same
  entry, or the same absence of one, under \<open>k\<close> before and after.
\<close>

theorem reducers_frame:
  "(k \<noteq> id_field item \<longrightarrow>
      (\<exists>s'. addToCart s item = Inr s' \<and> items s' k = items s k)) \<and>
   (k \<noteq> j \<longrightarrow>
      (\<exists>s'. incrementQuantity s j = Inr s' \<and> items s' k = items s k) \<and>
      (\<exists>s'. decrementQuantity s j = Inr s' \<and> items s' k = items s k))"
  by (simp add: addToCart_eq incrementQuantity_eq decrementQuantity_eq split: option.split)

theorem reducers_frame_witness:
  "(2::int) \<noteq> 1 \<and>
   (\<exists>s'. addToCart
       \<lparr>items = [1 \<mapsto>
          \<lparr>id_field = 1, title = ''Shirt'', image_field = ''u'', price = 20, quantity = 1\<rparr>,
                 2 \<mapsto>
          \<lparr>id_field = 2, title = ''Coat'', image_field = ''v'', price = 90, quantity = 4\<rparr>]\<rparr>
       \<lparr>id_field = 1, title = ''Hat'', image_field = ''w'', price = 7, quantity = 1\<rparr> = Inr s' \<and>
     items s' 2 =
       Some \<lparr>id_field = 2, title = ''Coat'', image_field = ''v'', price = 90, quantity = 4\<rparr>) \<and>
   (\<exists>s'. incrementQuantity
       \<lparr>items = [1 \<mapsto>
          \<lparr>id_field = 1, title = ''Shirt'', image_field = ''u'', price = 20, quantity = 1\<rparr>,
                 2 \<mapsto>
          \<lparr>id_field = 2, title = ''Coat'', image_field = ''v'', price = 90, quantity = 4\<rparr>]\<rparr>
       1 = Inr s' \<and>
     items s' 2 =
       Some \<lparr>id_field = 2, title = ''Coat'', image_field = ''v'', price = 90, quantity = 4\<rparr>) \<and>
   (\<exists>s'. decrementQuantity
       \<lparr>items = [1 \<mapsto>
          \<lparr>id_field = 1, title = ''Shirt'', image_field = ''u'', price = 20, quantity = 1\<rparr>,
                 2 \<mapsto>
          \<lparr>id_field = 2, title = ''Coat'', image_field = ''v'', price = 90, quantity = 4\<rparr>]\<rparr>
       1 = Inr s' \<and>
     items s' 2 =
       Some \<lparr>id_field = 2, title = ''Coat'', image_field = ''v'', price = 90, quantity = 4\<rparr>)"
  using reducers_frame [of 2
      "\<lparr>id_field = 1, title = ''Hat'', image_field = ''w'', price = 7, quantity = 1\<rparr>"
      "\<lparr>items = [1 \<mapsto>
         \<lparr>id_field = 1, title = ''Shirt'', image_field = ''u'', price = 20, quantity = 1\<rparr>,
                2 \<mapsto>
         \<lparr>id_field = 2, title = ''Coat'', image_field = ''v'', price = 90, quantity = 4\<rparr>]\<rparr>"
      1]
  by simp

text \<open>
  Claim C10. When \<open>items\<close> has an entry under \<open>k\<close>, \<open>addToCart\<close> of any payload whose id
  is \<open>k\<close> returns the state that \<open>incrementQuantity\<close> of \<open>k\<close> returns: the \<open>title\<close>,
  \<open>image\<close>, \<open>price\<close> and \<open>quantity\<close> of the payload do not reach the result.
\<close>

theorem addToCart_is_increment:
  assumes "items s k \<noteq> None"
  shows "addToCart s \<lparr>id_field = k, title = t, image_field = i, price = p, quantity = n\<rparr> =
         incrementQuantity s k"
  using assms by (simp add: addToCart_def incrementQuantity_def)

theorem addToCart_is_increment_witness:
  "items \<lparr>items = [1 \<mapsto>
      \<lparr>id_field = 1, title = ''Shirt'', image_field = ''u'', price = 20, quantity = 3\<rparr>]\<rparr> 1 \<noteq> None \<and>
   addToCart
     \<lparr>items = [1 \<mapsto>
        \<lparr>id_field = 1, title = ''Shirt'', image_field = ''u'', price = 20, quantity = 3\<rparr>]\<rparr>
     \<lparr>id_field = 1, title = ''Coat'', image_field = ''v'', price = - 5, quantity = 9\<rparr> =
   incrementQuantity
     \<lparr>items = [1 \<mapsto>
        \<lparr>id_field = 1, title = ''Shirt'', image_field = ''u'', price = 20, quantity = 3\<rparr>]\<rparr> 1"
  using addToCart_is_increment [of
      "\<lparr>items = [1 \<mapsto>
         \<lparr>id_field = 1, title = ''Shirt'', image_field = ''u'', price = 20, quantity = 3\<rparr>]\<rparr>"
      1 "''Coat''" "''v''" "- 5" 9]
  by simp

section \<open>Sequences of operations\<close>

text \<open>
  Claim C7. From the empty cart, adding an item of id 7 twice (the two payloads may
  differ in every other field) and then decrementing 7 twice returns a state whose
  \<open>items\<close> is empty.
\<close>

theorem add_add_decrement_decrement:
  "run initialState
     [AddToCart \<lparr>id_field = 7, title = t1, image_field = i1, price = p1, quantity = n1\<rparr>,
      AddToCart \<lparr>id_field = 7, title = t2, image_field = i2, price = p2, quantity = n2\<rparr>,
      DecrementQuantity 7,
      DecrementQuantity 7] = Inr \<lparr>items = Map.empty\<rparr>"
  by (simp add: initialState_def addToCart_eq decrementQuantity_eq
      number_add_exact number_sub_exact)

end
